theory Spec2Isabelle
  imports Main "HOL-Library.Word"
begin

section \<open>The protected dialer of protect.go\<close>

text \<open>
  The dialer of \<^verbatim>\<open>protect.go\<close> talks to the operating system, to the Go standard
  library, to v2ray-core and to two injected collaborators (the Protector and the resolver).
  None of them is part of the file, so each is a parameter of the model: a function that
  answers a call from the history of calls made so far. The model itself records every call
  it makes, with the answer it got, in a trace, and keeps the list of descriptors that are
  open in the process.
\<close>

subsection \<open>Data\<close>

type_synonym fd = int
type_synonym IP = "8 word list"

text \<open>The network kinds of v2ray-core's \<^verbatim>\<open>common/net\<close>.\<close>

datatype Network = Network_Unknown | Network_RawTCP | Network_TCP | Network_UDP | Network_UNIX

text \<open>
  A v2ray address is an IP address or a domain name; \<^verbatim>\<open>IPAddress(ip)\<close> builds the
  first kind and \<^verbatim>\<open>IP()\<close> reads the bytes back. A nil address is \<open>None\<close>. The
  model keeps the bytes of an address as they are given, of any length: what the library does
  to them is outside the file. \<^verbatim>\<open>IP()\<close> of a domain address and of a nil address
  panics.
\<close>

datatype Address = IPAddr IP | DomainAddr string

record Destination =
  Address :: "Address option"
  Port :: "16 word"
  Network :: Network

datatype error =
    ErrEmptyResponse
  | ErrorString string
  | Errno nat
  | ResolveError string
  | NetError string

text \<open>
  A context is the background context, a context of the caller, or a context derived from
  another one with a timeout (a \<^verbatim>\<open>time.Duration\<close>, in nanoseconds).
\<close>

datatype Context = Background | CallerContext nat | WithTimeout Context nat

definition Second :: nat where
  "Second = 1000000000"

datatype af = AF_INET | AF_INET6
datatype socktype = SOCK_STREAM | SOCK_DGRAM

definition IPPROTO_TCP :: int where
  "IPPROTO_TCP = 6"

definition IPPROTO_UDP :: int where
  "IPPROTO_UDP = 17"

definition IPv4len :: nat where
  "IPv4len = 4"

datatype Sockaddr = SockaddrInet4 nat "8 word list" | SockaddrInet6 nat "8 word list"

datatype UDPAddr = UDPAddr IP nat

text \<open>
  A connection made from a file by package net owns a descriptor of its own, a duplicate of
  the file's (``closing c does not affect f, and closing f does not affect c'').
\<close>

datatype Conn = FileConn fd | PacketConnWrapper fd UDPAddr

datatype SocketConfig = SocketConfig nat

datatype event =
    EvResolve Context string "IP list" "error option"
  | EvDial Destination
  | EvWithTimeout Context nat
  | EvCancel
  | EvSocket af socktype int "error + fd"
  | EvProtect fd bool
  | EvApplySockopt SocketConfig Destination fd Context
  | EvConnect fd Sockaddr "error option"
  | EvClose fd
  | EvFileClose fd
  | EvFilePacketConn fd "error + fd"
  | EvFileConn fd "error + fd"
  | EvResolveUDPAddr Destination "error + UDPAddr"
  | EvWarn error
  | EvDebug IP

record world =
  trace :: "event list"
  open_fds :: "fd list"

text \<open>The injected collaborators of the dialer.\<close>

record protectedDialer =
  protector :: "event list \<Rightarrow> fd \<Rightarrow> bool"
  resolver :: "event list \<Rightarrow> Context \<Rightarrow> string \<Rightarrow> IP list \<times> error option"

text \<open>The system calls and library calls whose outcome the code branches on.\<close>

record os =
  sys_Socket :: "event list \<Rightarrow> af \<Rightarrow> socktype \<Rightarrow> int \<Rightarrow> error option"
  sys_Connect :: "event list \<Rightarrow> fd \<Rightarrow> Sockaddr \<Rightarrow> error option"
  net_FilePacketConn :: "event list \<Rightarrow> fd \<Rightarrow> error option"
  net_FileConn :: "event list \<Rightarrow> fd \<Rightarrow> error option"
  net_ResolveUDPAddr :: "Destination \<Rightarrow> error + UDPAddr"

datatype 'a result = Panicked string world | Returned 'a

subsection \<open>The calls into the environment\<close>

definition emit :: "event \<Rightarrow> world \<Rightarrow> world" where
  "emit e w = w\<lparr>trace := trace w @ [e]\<rparr>"

text \<open>
  The kernel gives a new descriptor a number that is not in use. The model takes the number
  above every open one, and not below 0; no statement below depends on which unused number it
  is. Descriptor numbers are small, so the conversion \<^verbatim>\<open>int32(fd)\<close> in the call of the
  protector changes nothing.
\<close>

definition fresh_fd :: "fd list \<Rightarrow> fd" where
  "fresh_fd fds = fold (\<lambda>x m. max (x + 1) m) fds 0"

definition unix_Socket :: "os \<Rightarrow> af \<Rightarrow> socktype \<Rightarrow> int \<Rightarrow> world \<Rightarrow> world \<times> (error + fd)" where
  "unix_Socket os a ty proto w =
     (case sys_Socket os (trace w) a ty proto of
        Some e \<Rightarrow> (emit (EvSocket a ty proto (Inl e)) w, Inl e)
      | None \<Rightarrow>
          (let fd = fresh_fd (open_fds w)
           in (emit (EvSocket a ty proto (Inr fd)) (w\<lparr>open_fds := open_fds w @ [fd]\<rparr>), Inr fd)))"

definition unix_Close :: "fd \<Rightarrow> world \<Rightarrow> world" where
  "unix_Close fd w = emit (EvClose fd) (w\<lparr>open_fds := removeAll fd (open_fds w)\<rparr>)"

definition unix_Connect :: "os \<Rightarrow> fd \<Rightarrow> Sockaddr \<Rightarrow> world \<Rightarrow> world \<times> error option" where
  "unix_Connect os fd sa w =
     (let r = sys_Connect os (trace w) fd sa in (emit (EvConnect fd sa r) w, r))"

definition Protect :: "protectedDialer \<Rightarrow> fd \<Rightarrow> world \<Rightarrow> world \<times> bool" where
  "Protect dialer fd w =
     (let b = protector dialer (trace w) fd in (emit (EvProtect fd b) w, b))"

definition ApplySockopt :: "SocketConfig \<Rightarrow> Destination \<Rightarrow> fd \<Rightarrow> Context \<Rightarrow> world \<Rightarrow> world" where
  "ApplySockopt sockopt destination fd ctx w = emit (EvApplySockopt sockopt destination fd ctx) w"

text \<open>\<^verbatim>\<open>os.NewFile\<close> returns nil exactly for a negative descriptor.\<close>

definition os_NewFile :: "fd \<Rightarrow> fd option" where
  "os_NewFile fd = (if fd < 0 then None else Some fd)"

definition file_Close :: "fd \<Rightarrow> world \<Rightarrow> world" where
  "file_Close file w = emit (EvFileClose file) (w\<lparr>open_fds := removeAll file (open_fds w)\<rparr>)"

definition FilePacketConn :: "os \<Rightarrow> fd \<Rightarrow> world \<Rightarrow> world \<times> (error + fd)" where
  "FilePacketConn os file w =
     (case net_FilePacketConn os (trace w) file of
        Some e \<Rightarrow> (emit (EvFilePacketConn file (Inl e)) w, Inl e)
      | None \<Rightarrow>
          (let fd = fresh_fd (open_fds w)
           in (emit (EvFilePacketConn file (Inr fd)) (w\<lparr>open_fds := open_fds w @ [fd]\<rparr>), Inr fd)))"

definition FileConn_call :: "os \<Rightarrow> fd \<Rightarrow> world \<Rightarrow> world \<times> (error + fd)" where
  "FileConn_call os file w =
     (case net_FileConn os (trace w) file of
        Some e \<Rightarrow> (emit (EvFileConn file (Inl e)) w, Inl e)
      | None \<Rightarrow>
          (let fd = fresh_fd (open_fds w)
           in (emit (EvFileConn file (Inr fd)) (w\<lparr>open_fds := open_fds w @ [fd]\<rparr>), Inr fd)))"

definition ResolveUDPAddr :: "os \<Rightarrow> Destination \<Rightarrow> world \<Rightarrow> world \<times> (error + UDPAddr)" where
  "ResolveUDPAddr os destination w =
     (let r = net_ResolveUDPAddr os destination in (emit (EvResolveUDPAddr destination r) w, r))"

definition resolve :: "protectedDialer \<Rightarrow> Context \<Rightarrow> string \<Rightarrow> world \<Rightarrow> world \<times> IP list \<times> error option" where
  "resolve dialer ctx domain w =
     (let (ips, err) = resolver dialer (trace w) ctx domain
      in (emit (EvResolve ctx domain ips err) w, ips, err))"

text \<open>Go's \<^verbatim>\<open>copy(dst[:], src)\<close> into a zeroed array of \<open>n\<close> bytes.\<close>

definition copy_into :: "nat \<Rightarrow> 8 word list \<Rightarrow> 8 word list" where
  "copy_into n src = take n src @ replicate (n - length src) 0"

subsection \<open>getFd\<close>

definition getFd :: "os \<Rightarrow> Network \<Rightarrow> bool \<Rightarrow> world \<Rightarrow> world \<times> (error + fd)" where
  "getFd os network ipv6 w =
     (let a = (if \<not> ipv6 then AF_INET else AF_INET6)
      in case network of
           Network_TCP \<Rightarrow> unix_Socket os a SOCK_STREAM IPPROTO_TCP w
         | Network_UDP \<Rightarrow> unix_Socket os a SOCK_DGRAM IPPROTO_UDP w
         | Network_UNIX \<Rightarrow> unix_Socket os a SOCK_STREAM 0 w
         | _ \<Rightarrow> (w, Inl (ErrorString ''unknow network'')))"

subsection \<open>protectedDialer.dial: one attempt\<close>

text \<open>
  The part of \<^verbatim>\<open>dial\<close> after the connect has succeeded (lines 109 to 136), with the
  deferred \<^verbatim>\<open>file.Close()\<close> run at each return. In the datagram branch the two
  \<^verbatim>\<open>err\<close> are variables of the branch: only the second is returned from there, and
  the function's own \<^verbatim>\<open>err\<close> still holds the nil of the connect at line 132.
\<close>

definition dial_wrap :: "os \<Rightarrow> Destination \<Rightarrow> fd \<Rightarrow> world \<Rightarrow> world \<times> Conn option \<times> error option" where
  "dial_wrap os destination fd w =
     (case os_NewFile fd of
        None \<Rightarrow> (w, None, Some (ErrorString ''failed to connect to fd''))
      | Some file \<Rightarrow>
          (case Network destination of
             Network_UDP \<Rightarrow>
               (let (w1, r) = FilePacketConn os file w
                in case r of
                     Inr pc \<Rightarrow>
                       (let (w2, r2) = ResolveUDPAddr os destination w1
                        in case r2 of
                             Inl err2 \<Rightarrow> (file_Close file w2, None, Some err2)
                           | Inr destAddr \<Rightarrow>
                               (file_Close file w2, Some (PacketConnWrapper pc destAddr), None))
                   | Inl err1 \<Rightarrow> (file_Close file w1, None, None))
           | _ \<Rightarrow>
               (let (w1, r) = FileConn_call os file w
                in case r of
                     Inl err \<Rightarrow> (file_Close file w1, None, Some err)
                   | Inr c \<Rightarrow> (file_Close file w1, Some (FileConn c), None))))"

text \<open>
  \<^verbatim>\<open>dial\<close> replaces the context it is given by a fresh one with a timeout of ten
  seconds, which it hands to \<^verbatim>\<open>internet.ApplySockopt\<close> only; the deferred
  \<^verbatim>\<open>cancel()\<close> runs at each return, after the deferred \<^verbatim>\<open>file.Close()\<close> where there
  is one. The result of \<^verbatim>\<open>internet.ApplySockopt\<close> is not looked at. The first event of
  an attempt records the call of \<^verbatim>\<open>dial\<close> itself, with the destination it is given.
\<close>

definition dial ::
  "protectedDialer \<Rightarrow> os \<Rightarrow> Context \<Rightarrow> Address option \<Rightarrow> Destination \<Rightarrow> SocketConfig option \<Rightarrow> world
    \<Rightarrow> (world \<times> Conn option \<times> error option) result" where
  "dial dialer os ctx0 source destination sockopt w0 =
     (let ctx = WithTimeout Background (10 * Second);
          w = emit (EvWithTimeout Background (10 * Second)) (emit (EvDial destination) w0)
      in case Address destination of
           None \<Rightarrow> Panicked ''invalid memory address or nil pointer dereference'' (emit EvCancel w)
         | Some (DomainAddr _) \<Rightarrow> Panicked ''Calling IP() on a DomainAddress.'' (emit EvCancel w)
         | Some (IPAddr destIp) \<Rightarrow>
             (let ipv6 = (length destIp \<noteq> IPv4len);
                  (w1, r) = getFd os (Network destination) ipv6 w
              in case r of
                   Inl err \<Rightarrow> Returned (emit EvCancel w1, None, Some err)
                 | Inr fd \<Rightarrow>
                     (let (w2, ok) = Protect dialer fd w1
                      in if \<not> ok
                         then Returned (emit EvCancel (unix_Close fd w2), None,
                                        Some (ErrorString ''protect failed''))
                         else
                           (let w3 = (case sockopt of
                                        Some so \<Rightarrow> ApplySockopt so destination fd ctx w2
                                      | None \<Rightarrow> w2);
                                sockaddr =
                                  (if \<not> ipv6
                                   then SockaddrInet4 (unat (Port destination)) (copy_into 4 destIp)
                                   else SockaddrInet6 (unat (Port destination)) (copy_into 16 destIp));
                                (w4, cerr) = unix_Connect os fd sockaddr w3
                            in case cerr of
                                 Some err \<Rightarrow> Returned (emit EvCancel (unix_Close fd w4), None, Some err)
                               | None \<Rightarrow>
                                   (let (w5, conn, err) = dial_wrap os destination fd w4
                                    in Returned (emit EvCancel w5, conn, err))))))"

subsection \<open>protectedDialer.Dial: resolution and the loop over the candidates\<close>

text \<open>
  \<^verbatim>\<open>Dial\<close> panics on an invalid destination before anything else. A domain is resolved
  with the context of the caller; an answer without error and without address becomes
  \<^verbatim>\<open>dns.ErrEmptyResponse\<close>, and any error ends the call. The two log lines of the loop
  are events of the trace.
\<close>

definition IPAddress :: "IP \<Rightarrow> Address" where
  "IPAddress ip = IPAddr ip"

text \<open>
  The loop of lines 53 to 64, from index \<open>i\<close> on, with the current values of
  \<^verbatim>\<open>conn\<close> and \<^verbatim>\<open>err\<close>.
\<close>

fun Dial_loop ::
  "protectedDialer \<Rightarrow> os \<Rightarrow> Context \<Rightarrow> Address option \<Rightarrow> Destination \<Rightarrow> SocketConfig option
    \<Rightarrow> nat \<Rightarrow> Conn option \<Rightarrow> error option \<Rightarrow> IP list \<Rightarrow> world
    \<Rightarrow> (world \<times> Conn option \<times> error option) result" where
  "Dial_loop dialer os ctx source destination sockopt i conn err [] w = Returned (w, conn, err)"
| "Dial_loop dialer os ctx source destination sockopt i conn err (ip # ips) w =
     (if i > 0 \<and> err = None then Returned (w, conn, err)
      else
        (let w1 = (if i > 0
                   then (case err of
                           Some e \<Rightarrow> emit (EvDebug ip) (emit (EvWarn e) w)
                         | None \<Rightarrow> w)
                   else w)
         in case dial dialer os ctx source (destination\<lparr>Address := Some (IPAddress ip)\<rparr>) sockopt w1 of
              Panicked msg w2 \<Rightarrow> Panicked msg w2
            | Returned (w2, conn2, err2) \<Rightarrow>
                Dial_loop dialer os ctx source (destination\<lparr>Address := Some (IPAddress ip)\<rparr>) sockopt
                  (Suc i) conn2 err2 ips w2))"

definition Dial ::
  "protectedDialer \<Rightarrow> os \<Rightarrow> Context \<Rightarrow> Address option \<Rightarrow> Destination \<Rightarrow> SocketConfig option \<Rightarrow> world
    \<Rightarrow> (world \<times> Conn option \<times> error option) result" where
  "Dial dialer os ctx source destination sockopt w =
     (if Network destination = Network_Unknown \<or> Address destination = None
      then Panicked ''connect to invalid destination'' w
      else
        (case Address destination of
           Some (DomainAddr domain) \<Rightarrow>
             (let (w1, ips, err0) = resolve dialer ctx domain w;
                  err = (if err0 = None \<and> length ips = 0 then Some ErrEmptyResponse else err0)
              in if err \<noteq> None then Returned (w1, None, err)
                 else Dial_loop dialer os ctx source destination sockopt 0 None err ips w1)
         | Some (IPAddr ip) \<Rightarrow>
             Dial_loop dialer os ctx source destination sockopt 0 None None ([] @ [ip]) w
         | None \<Rightarrow> Panicked ''connect to invalid destination'' w))"

subsection \<open>Reading a trace\<close>

text \<open>The addresses of the attempts recorded in a trace, in order.\<close>

fun dial_ip :: "event \<Rightarrow> IP list" where
  "dial_ip (EvDial d) = (case Address d of Some (IPAddr ip) \<Rightarrow> [ip] | _ \<Rightarrow> [])"
| "dial_ip _ = []"

definition dial_calls :: "event list \<Rightarrow> IP list" where
  "dial_calls t = concat (map dial_ip t)"

text \<open>The domains handed to the resolver, the warnings logged, the sockets asked for.\<close>

fun resolve_domain :: "event \<Rightarrow> string list" where
  "resolve_domain (EvResolve c d ips e) = [d]"
| "resolve_domain _ = []"

definition resolve_calls :: "event list \<Rightarrow> string list" where
  "resolve_calls t = concat (map resolve_domain t)"

fun warned :: "event \<Rightarrow> error list" where
  "warned (EvWarn e) = [e]"
| "warned _ = []"

definition warnings :: "event list \<Rightarrow> error list" where
  "warnings t = concat (map warned t)"

fun socket_args :: "event \<Rightarrow> (af \<times> socktype \<times> int) list" where
  "socket_args (EvSocket a ty proto r) = [(a, ty, proto)]"
| "socket_args _ = []"

definition socket_calls :: "event list \<Rightarrow> (af \<times> socktype \<times> int) list" where
  "socket_calls t = concat (map socket_args t)"

fun connect_arg :: "event \<Rightarrow> Sockaddr list" where
  "connect_arg (EvConnect fd sa r) = [sa]"
| "connect_arg _ = []"

definition connect_calls :: "event list \<Rightarrow> Sockaddr list" where
  "connect_calls t = concat (map connect_arg t)"

text \<open>The events a trace has gained since an earlier one.\<close>

definition since :: "world \<Rightarrow> world \<Rightarrow> event list" where
  "since w w' = drop (length (trace w)) (trace w')"

text \<open>
  The events of one attempt, for the statements below: the two events every attempt starts
  with, the socket type and protocol \<^verbatim>\<open>getFd\<close> asks for, the address family and
  socket address computed from the candidate, and the optional call that applies the socket
  options.
\<close>

definition attempt_head :: "Destination \<Rightarrow> event list" where
  "attempt_head destination = [EvDial destination, EvWithTimeout Background (10 * Second)]"

definition socket_kind :: "Network \<Rightarrow> (socktype \<times> int) option" where
  "socket_kind network =
     (case network of
        Network_TCP \<Rightarrow> Some (SOCK_STREAM, IPPROTO_TCP)
      | Network_UDP \<Rightarrow> Some (SOCK_DGRAM, IPPROTO_UDP)
      | Network_UNIX \<Rightarrow> Some (SOCK_STREAM, 0)
      | _ \<Rightarrow> None)"

definition family :: "IP \<Rightarrow> af" where
  "family ip = (if length ip = IPv4len then AF_INET else AF_INET6)"

definition sockaddr_of :: "Destination \<Rightarrow> IP \<Rightarrow> Sockaddr" where
  "sockaddr_of destination ip =
     (if length ip = IPv4len
      then SockaddrInet4 (unat (Port destination)) (copy_into 4 ip)
      else SockaddrInet6 (unat (Port destination)) (copy_into 16 ip))"

definition sockopt_events :: "SocketConfig option \<Rightarrow> Destination \<Rightarrow> fd \<Rightarrow> event list" where
  "sockopt_events sockopt destination fd =
     (case sockopt of
        Some so \<Rightarrow> [EvApplySockopt so destination fd (WithTimeout Background (10 * Second))]
      | None \<Rightarrow> [])"

definition protected_prefix ::
  "SocketConfig option \<Rightarrow> Destination \<Rightarrow> IP \<Rightarrow> socktype \<Rightarrow> int \<Rightarrow> fd \<Rightarrow> event list" where
  "protected_prefix sockopt destination ip ty proto fd =
     attempt_head destination
       @ [EvSocket (family ip) ty proto (Inr fd), EvProtect fd True]
       @ sockopt_events sockopt destination fd"

text \<open>The events after the last call of \<^verbatim>\<open>dial\<close>: those of the last attempt.\<close>

fun is_dial :: "event \<Rightarrow> bool" where
  "is_dial (EvDial d) = True"
| "is_dial _ = False"


text \<open>The descriptors made by \<^verbatim>\<open>unix.Socket\<close>.\<close>

fun socket_fd :: "event \<Rightarrow> fd list" where
  "socket_fd (EvSocket a ty proto (Inr fd)) = [fd]"
| "socket_fd _ = []"

definition created_fds :: "event list \<Rightarrow> fd list" where
  "created_fds t = concat (map socket_fd t)"


text \<open>
  Failures of the two library calls of the datagram branch, as they show in a trace.
\<close>

fun is_udp_addr_error :: "event \<Rightarrow> bool" where
  "is_udp_addr_error (EvResolveUDPAddr d (Inl e)) = True"
| "is_udp_addr_error _ = False"

definition udp_addr_failed :: "event list \<Rightarrow> bool" where
  "udp_addr_failed t = list_ex is_udp_addr_error t"

fun is_pc_error :: "event \<Rightarrow> bool" where
  "is_pc_error (EvFilePacketConn fd (Inl e)) = True"
| "is_pc_error _ = False"

definition packet_conn_failed :: "event list \<Rightarrow> bool" where
  "packet_conn_failed t = list_ex is_pc_error t"

text \<open>
  The contexts handed to a call: the resolver, \<^verbatim>\<open>context.WithTimeout\<close> and
  \<^verbatim>\<open>internet.ApplySockopt\<close> take one, the other calls take none. The calls of a
  trace that were handed the context \<open>c\<close> are \<open>under_context c\<close>.
\<close>

fun call_contexts :: "event \<Rightarrow> Context list" where
  "call_contexts (EvResolve c domain ips e) = [c]"
| "call_contexts (EvWithTimeout parent d) = [parent]"
| "call_contexts (EvApplySockopt so d fd c) = [c]"
| "call_contexts _ = []"

definition under_context :: "Context \<Rightarrow> event list \<Rightarrow> event list" where
  "under_context c t = filter (\<lambda>ev. c \<in> set (call_contexts ev)) t"

text \<open>The candidate list of lines 40 to 51, and the world a finished call leaves.\<close>

definition candidates :: "protectedDialer \<Rightarrow> Context \<Rightarrow> Destination \<Rightarrow> world \<Rightarrow> IP list" where
  "candidates dialer ctx destination w =
     (case Address destination of
        Some (IPAddr ip) \<Rightarrow> [ip]
      | Some (DomainAddr domain) \<Rightarrow> fst (resolver dialer (trace w) ctx domain)
      | None \<Rightarrow> [])"

fun result_world :: "(world \<times> 'a) result \<Rightarrow> world" where
  "result_world (Returned (w, x)) = w"
| "result_world (Panicked msg w) = w"

text \<open>
  The world in which the attempt of index \<open>i\<close> starts: for \<open>i > 0\<close>, after the two
  log lines about the failure \<open>err\<close> of the attempt before and the next address.
\<close>

definition enter :: "nat \<Rightarrow> error option \<Rightarrow> IP \<Rightarrow> world \<Rightarrow> world" where
  "enter i err ip w =
     (if i > 0
      then (case err of Some e \<Rightarrow> emit (EvDebug ip) (emit (EvWarn e) w) | None \<Rightarrow> w)
      else w)"

subsection \<open>The fallback policy in the words of the specification\<close>

text \<open>
  ``Attempt addresses strictly in the order returned by the resolver. If the previous attempt
  failed, log the failure at warning level, log the next candidate at debug level, and
  proceed to the next address. The final returned error is the error from the last attempted
  address.'' \<open>tried_in_order \<dots> w ips r\<close> says that, from the world \<open>w\<close>, every address
  of \<open>ips\<close> was attempted, in this order, each one but the last failing, and that the last
  attempt returned \<open>r\<close>.
\<close>

fun tried_in_order ::
  "protectedDialer \<Rightarrow> os \<Rightarrow> Context \<Rightarrow> Address option \<Rightarrow> Destination \<Rightarrow> SocketConfig option
    \<Rightarrow> world \<Rightarrow> IP list \<Rightarrow> world \<times> Conn option \<times> error option \<Rightarrow> bool" where
  "tried_in_order dialer os ctx source destination sockopt w [] r = False"
| "tried_in_order dialer os ctx source destination sockopt w [ip] r =
     (dial dialer os ctx source (destination\<lparr>Address := Some (IPAddr ip)\<rparr>) sockopt w = Returned r)"
| "tried_in_order dialer os ctx source destination sockopt w (ip # ip' # ips) r =
     (case dial dialer os ctx source (destination\<lparr>Address := Some (IPAddr ip)\<rparr>) sockopt w of
        Returned (w1, conn1, Some e1) \<Rightarrow>
          tried_in_order dialer os ctx source destination sockopt
            (emit (EvDebug ip') (emit (EvWarn e1) w1)) (ip' # ips) r
      | _ \<Rightarrow> False)"

subsection \<open>Example environments\<close>

text \<open>The protector of \<^verbatim>\<open>noopProtector\<close>: it protects every descriptor.\<close>

definition noopProtector :: "event list \<Rightarrow> fd \<Rightarrow> bool" where
  "noopProtector t fd = True"

definition ip_a :: IP where
  "ip_a = [10, 0, 0, 1]"

definition ip_b :: IP where
  "ip_b = [10, 0, 0, 2]"

definition ip_six :: IP where
  "ip_six = [0x20, 0x01, 0x0d, 0xb8, 0, 0, 0, 0, 0, 0, 0, 0, 0, 0, 0, 1]"

text \<open>A process with its three standard descriptors open and no call made yet.\<close>

definition w_start :: world where
  "w_start = \<lparr>trace = [], open_fds = [0, 1, 2]\<rparr>"

text \<open>A resolver that knows one name, with two addresses, and an empty name with none.\<close>

definition example_resolver :: "event list \<Rightarrow> Context \<Rightarrow> string \<Rightarrow> IP list \<times> error option" where
  "example_resolver t ctx domain =
     (if domain = ''example.test'' then ([ip_a, ip_b], None)
      else if domain = ''empty.test'' then ([], None)
      else ([], Some (ResolveError ''no such host'')))"

definition example_dialer :: protectedDialer where
  "example_dialer = \<lparr>protector = noopProtector, resolver = example_resolver\<rparr>"

definition peer_of :: "Destination \<Rightarrow> error + UDPAddr" where
  "peer_of d =
     (case Address d of
        Some (IPAddr ip) \<Rightarrow> Inr (UDPAddr ip (unat (Port d)))
      | _ \<Rightarrow> Inl (NetError ''missing address''))"

text \<open>A system in which every call succeeds, except that \<open>10.0.0.1\<close> is unreachable.\<close>

definition example_os :: os where
  "example_os =
     \<lparr>sys_Socket = (\<lambda>t a ty proto. None),
      sys_Connect = (\<lambda>t fd sa. if sa = SockaddrInet4 443 ip_a then Some (Errno 113) else None),
      net_FilePacketConn = (\<lambda>t fd. None),
      net_FileConn = (\<lambda>t fd. None),
      net_ResolveUDPAddr = peer_of\<rparr>"

definition example_destination :: Destination where
  "example_destination = \<lparr>Address = Some (DomainAddr ''example.test''), Port = 443, Network = Network_TCP\<rparr>"

text \<open>
  Variants: a protector that refuses every descriptor; a system in which both addresses are
  reachable; one in which no socket can be made (\<open>EMFILE\<close>); one in which
  \<^verbatim>\<open>net.FileConn\<close> fails during the attempt on \<open>10.0.0.1\<close> only, one in which it
  always fails, and one in which \<^verbatim>\<open>net.FilePacketConn\<close> always fails.
\<close>

definition refusing_dialer :: protectedDialer where
  "refusing_dialer = example_dialer\<lparr>protector := (\<lambda>t fd. False)\<rparr>"

definition reachable_os :: os where
  "reachable_os = example_os\<lparr>sys_Connect := (\<lambda>t fd sa. None)\<rparr>"

definition no_descriptors_os :: os where
  "no_descriptors_os = example_os\<lparr>sys_Socket := (\<lambda>t a ty proto. Some (Errno 24))\<rparr>"

definition wrap_fails_once_os :: os where
  "wrap_fails_once_os =
     reachable_os\<lparr>net_FileConn := (\<lambda>t fd. if dial_calls t = [ip_a] then Some (Errno 24) else None)\<rparr>"

definition wrap_fails_os :: os where
  "wrap_fails_os = reachable_os\<lparr>net_FileConn := (\<lambda>t fd. Some (Errno 24))\<rparr>"

definition packet_conn_fails_os :: os where
  "packet_conn_fails_os = reachable_os\<lparr>net_FilePacketConn := (\<lambda>t fd. Some (Errno 24))\<rparr>"

definition dest_a :: Destination where
  "dest_a = \<lparr>Address = Some (IPAddr ip_a), Port = 443, Network = Network_TCP\<rparr>"

definition dest_b :: Destination where
  "dest_b = \<lparr>Address = Some (IPAddr ip_b), Port = 443, Network = Network_TCP\<rparr>"

text \<open>The calls the examples below evaluate.\<close>

definition dest_six :: Destination where
  "dest_six = \<lparr>Address = Some (IPAddr ip_six), Port = 53, Network = Network_UDP\<rparr>"

definition example_call :: "(world \<times> Conn option \<times> error option) result" where
  "example_call = Dial example_dialer example_os (CallerContext 1) None example_destination None w_start"

definition refused_call :: "(world \<times> Conn option \<times> error option) result" where
  "refused_call = Dial refusing_dialer example_os (CallerContext 1) None example_destination None w_start"

definition wrap_once_call :: "(world \<times> Conn option \<times> error option) result" where
  "wrap_once_call =
     Dial example_dialer wrap_fails_once_os (CallerContext 1) None example_destination None w_start"

definition wrap_call :: "(world \<times> Conn option \<times> error option) result" where
  "wrap_call = Dial example_dialer wrap_fails_os (CallerContext 1) None example_destination None w_start"

definition packet_call :: "(world \<times> Conn option \<times> error option) result" where
  "packet_call = Dial example_dialer packet_conn_fails_os (CallerContext 1) None dest_six None w_start"

definition no_socket_attempt :: "(world \<times> Conn option \<times> error option) result" where
  "no_socket_attempt = dial example_dialer no_descriptors_os (CallerContext 1) None dest_a None w_start"

definition reachable_attempt :: "(world \<times> Conn option \<times> error option) result" where
  "reachable_attempt = dial example_dialer example_os (CallerContext 1) None dest_b None w_start"

section \<open>Descriptors and single attempts\<close>

lemmas env_defs = emit_def unix_Socket_def unix_Close_def unix_Connect_def Protect_def
  ApplySockopt_def file_Close_def FilePacketConn_def FileConn_call_def ResolveUDPAddr_def

lemma fold_max_ge: "m \<le> fold (\<lambda>x m. max (x + 1) m) fds (m::int)"
proof (induction fds arbitrary: m)
  case Nil show ?case by simp
next
  case (Cons a fds)
  have "m \<le> max (a + 1) m" by simp
  also have "\<dots> \<le> fold (\<lambda>x m. max (x + 1) m) fds (max (a + 1) m)" by (rule Cons.IH)
  finally show ?case by simp
qed

lemma fold_max_above: "x \<in> set fds \<Longrightarrow> x < fold (\<lambda>x m. max (x + 1) m) fds (m::int)"
proof (induction fds arbitrary: m)
  case Nil then show ?case by simp
next
  case (Cons a fds)
  show ?case
  proof (cases "x = a")
    case True
    have "a < max (a + 1) m" by simp
    also have "\<dots> \<le> fold (\<lambda>x m. max (x + 1) m) fds (max (a + 1) m)" by (rule fold_max_ge)
    finally show ?thesis using True by simp
  next
    case False
    with Cons.prems have "x \<in> set fds" by simp
    then show ?thesis using Cons.IH by simp
  qed
qed

lemma fresh_fd_nonneg: "0 \<le> fresh_fd fds"
  unfolding fresh_fd_def by (rule fold_max_ge)

lemma fresh_fd_above: "x \<in> set fds \<Longrightarrow> x < fresh_fd fds"
  unfolding fresh_fd_def by (rule fold_max_above)

lemma fresh_fd_notin: "fresh_fd fds \<notin> set fds"
  using fresh_fd_above [of "fresh_fd fds" fds] by auto

lemma removeAll_fresh [simp]: "removeAll (fresh_fd fds) (fds @ [fresh_fd fds]) = fds"
  using fresh_fd_notin [of fds] by simp

lemma removeAll_fresh2 [simp]:
  "removeAll (fresh_fd fds) (fds @ [fresh_fd fds, fresh_fd (fds @ [fresh_fd fds])])
     = fds @ [fresh_fd (fds @ [fresh_fd fds])]"
proof -
  have "fresh_fd fds < fresh_fd (fds @ [fresh_fd fds])" by (rule fresh_fd_above) simp
  then show ?thesis using fresh_fd_notin [of fds] by simp
qed

lemma removeAll_fresh_id [simp]: "removeAll (fresh_fd fds) fds = fds"
  using fresh_fd_notin [of fds] by simp

lemma fresh_fd_neq [simp]: "fresh_fd fds \<noteq> fresh_fd (fds @ [fresh_fd fds])"
proof -
  have "fresh_fd fds < fresh_fd (fds @ [fresh_fd fds])" by (rule fresh_fd_above) simp
  then show ?thesis by simp
qed

lemma os_NewFile_fresh [simp]: "os_NewFile (fresh_fd fds) = Some (fresh_fd fds)"
  using fresh_fd_nonneg [of fds] by (simp add: os_NewFile_def)

lemma getFd_kind:
  "socket_kind network = Some (ty, proto) \<Longrightarrow>
     getFd os network ipv6 w = unix_Socket os (if \<not> ipv6 then AF_INET else AF_INET6) ty proto w"
  by (cases network) (simp_all add: getFd_def socket_kind_def)

lemma getFd_no_kind:
  "socket_kind network = None \<Longrightarrow> getFd os network ipv6 w = (w, Inl (ErrorString ''unknow network''))"
  by (cases network) (simp_all add: getFd_def socket_kind_def)

lemma socket_kind_UDP: "socket_kind Network_UDP = Some (ty, proto) \<longleftrightarrow> ty = SOCK_DGRAM \<and> proto = IPPROTO_UDP"
  by (auto simp: socket_kind_def)

lemmas trace_defs = attempt_head_def protected_prefix_def family_def [symmetric] sockaddr_of_def [symmetric]

lemma sockopt_step:
  "(case sockopt of
      Some so \<Rightarrow> ApplySockopt so destination fd (WithTimeout Background (10 * Second)) w
    | None \<Rightarrow> w) = w\<lparr>trace := trace w @ sockopt_events sockopt destination fd\<rparr>"
  by (cases sockopt) (simp_all add: ApplySockopt_def emit_def sockopt_events_def)

lemma dial_cases [consumes 1, case_names no_socket socket_error protect_false connect_error
    packet_conn_error udp_addr_error packet_conn file_conn_error file_conn]:
  assumes ip: "Address destination = Some (IPAddr ip)"
  obtains
    "socket_kind (Network destination) = None"
    "dial dialer os ctx source destination sockopt w =
       Returned (w\<lparr>trace := trace w @ attempt_head destination @ [EvCancel]\<rparr>,
                 None, Some (ErrorString ''unknow network''))"
  | ty proto e where
    "socket_kind (Network destination) = Some (ty, proto)"
    "dial dialer os ctx source destination sockopt w =
       Returned (w\<lparr>trace := trace w @ attempt_head destination
                            @ [EvSocket (family ip) ty proto (Inl e), EvCancel]\<rparr>,
                 None, Some e)"
  | ty proto where
    "socket_kind (Network destination) = Some (ty, proto)"
    "dial dialer os ctx source destination sockopt w =
       Returned (w\<lparr>trace := trace w @ attempt_head destination
                            @ [EvSocket (family ip) ty proto (Inr (fresh_fd (open_fds w))),
                               EvProtect (fresh_fd (open_fds w)) False,
                               EvClose (fresh_fd (open_fds w)), EvCancel]\<rparr>,
                 None, Some (ErrorString ''protect failed''))"
  | ty proto e where
    "socket_kind (Network destination) = Some (ty, proto)"
    "dial dialer os ctx source destination sockopt w =
       Returned (w\<lparr>trace := trace w
                            @ protected_prefix sockopt destination ip ty proto (fresh_fd (open_fds w))
                            @ [EvConnect (fresh_fd (open_fds w)) (sockaddr_of destination ip) (Some e),
                               EvClose (fresh_fd (open_fds w)), EvCancel]\<rparr>,
                 None, Some e)"
  | e where
    "Network destination = Network_UDP"
    "dial dialer os ctx source destination sockopt w =
       Returned (w\<lparr>trace := trace w
                            @ protected_prefix sockopt destination ip SOCK_DGRAM IPPROTO_UDP (fresh_fd (open_fds w))
                            @ [EvConnect (fresh_fd (open_fds w)) (sockaddr_of destination ip) None,
                               EvFilePacketConn (fresh_fd (open_fds w)) (Inl e),
                               EvFileClose (fresh_fd (open_fds w)), EvCancel]\<rparr>,
                 None, None)"
  | e where
    "Network destination = Network_UDP"
    "dial dialer os ctx source destination sockopt w =
       Returned (w\<lparr>trace := trace w
                            @ protected_prefix sockopt destination ip SOCK_DGRAM IPPROTO_UDP (fresh_fd (open_fds w))
                            @ [EvConnect (fresh_fd (open_fds w)) (sockaddr_of destination ip) None,
                               EvFilePacketConn (fresh_fd (open_fds w))
                                 (Inr (fresh_fd (open_fds w @ [fresh_fd (open_fds w)]))),
                               EvResolveUDPAddr destination (Inl e),
                               EvFileClose (fresh_fd (open_fds w)), EvCancel],
                    open_fds := open_fds w @ [fresh_fd (open_fds w @ [fresh_fd (open_fds w)])]\<rparr>,
                 None, Some e)"
  | destAddr where
    "Network destination = Network_UDP"
    "dial dialer os ctx source destination sockopt w =
       Returned (w\<lparr>trace := trace w
                            @ protected_prefix sockopt destination ip SOCK_DGRAM IPPROTO_UDP (fresh_fd (open_fds w))
                            @ [EvConnect (fresh_fd (open_fds w)) (sockaddr_of destination ip) None,
                               EvFilePacketConn (fresh_fd (open_fds w))
                                 (Inr (fresh_fd (open_fds w @ [fresh_fd (open_fds w)]))),
                               EvResolveUDPAddr destination (Inr destAddr),
                               EvFileClose (fresh_fd (open_fds w)), EvCancel],
                    open_fds := open_fds w @ [fresh_fd (open_fds w @ [fresh_fd (open_fds w)])]\<rparr>,
                 Some (PacketConnWrapper (fresh_fd (open_fds w @ [fresh_fd (open_fds w)])) destAddr), None)"
  | ty proto e where
    "Network destination \<noteq> Network_UDP"
    "socket_kind (Network destination) = Some (ty, proto)"
    "dial dialer os ctx source destination sockopt w =
       Returned (w\<lparr>trace := trace w
                            @ protected_prefix sockopt destination ip ty proto (fresh_fd (open_fds w))
                            @ [EvConnect (fresh_fd (open_fds w)) (sockaddr_of destination ip) None,
                               EvFileConn (fresh_fd (open_fds w)) (Inl e),
                               EvFileClose (fresh_fd (open_fds w)), EvCancel]\<rparr>,
                 None, Some e)"
  | ty proto where
    "Network destination \<noteq> Network_UDP"
    "socket_kind (Network destination) = Some (ty, proto)"
    "dial dialer os ctx source destination sockopt w =
       Returned (w\<lparr>trace := trace w
                            @ protected_prefix sockopt destination ip ty proto (fresh_fd (open_fds w))
                            @ [EvConnect (fresh_fd (open_fds w)) (sockaddr_of destination ip) None,
                               EvFileConn (fresh_fd (open_fds w))
                                 (Inr (fresh_fd (open_fds w @ [fresh_fd (open_fds w)]))),
                               EvFileClose (fresh_fd (open_fds w)), EvCancel],
                    open_fds := open_fds w @ [fresh_fd (open_fds w @ [fresh_fd (open_fds w)])]\<rparr>,
                 Some (FileConn (fresh_fd (open_fds w @ [fresh_fd (open_fds w)]))), None)"
proof (cases "socket_kind (Network destination)")
  case None
  then have "dial dialer os ctx source destination sockopt w =
       Returned (w\<lparr>trace := trace w @ attempt_head destination @ [EvCancel]\<rparr>,
                 None, Some (ErrorString ''unknow network''))"
    using ip by (simp add: dial_def getFd_no_kind emit_def attempt_head_def)
  with None show thesis by (rule that(1))
next
  case (Some k)
  obtain ty proto where k: "k = (ty, proto)" by (cases k)
  have kind: "socket_kind (Network destination) = Some (ty, proto)" using Some k by simp
  define fd where "fd = fresh_fd (open_fds w)"
  define t1 where "t1 = trace w @ [EvDial destination, EvWithTimeout Background (10 * Second)]"
  show thesis
  proof (cases "sys_Socket os t1 (family ip) ty proto")
    case (Some e)
    then have "dial dialer os ctx source destination sockopt w =
       Returned (w\<lparr>trace := trace w @ attempt_head destination
                            @ [EvSocket (family ip) ty proto (Inl e), EvCancel]\<rparr>,
                 None, Some e)"
      using ip unfolding t1_def
      by (simp add: dial_def getFd_kind [OF kind] emit_def unix_Socket_def trace_defs)
    with kind show thesis by (rule that(2))
  next
    case None
    note sock = None
    show thesis
    proof (cases "protector dialer (t1 @ [EvSocket (family ip) ty proto (Inr fd)]) fd")
      case False
      with sock have "dial dialer os ctx source destination sockopt w =
       Returned (w\<lparr>trace := trace w @ attempt_head destination
                            @ [EvSocket (family ip) ty proto (Inr (fresh_fd (open_fds w))),
                               EvProtect (fresh_fd (open_fds w)) False,
                               EvClose (fresh_fd (open_fds w)), EvCancel]\<rparr>,
                 None, Some (ErrorString ''protect failed''))"
        using ip unfolding t1_def fd_def
        by (simp add: dial_def getFd_kind [OF kind] env_defs trace_defs Let_def)
      with kind show thesis by (rule that(3))
    next
      case True
      note prot = True
      define t3 where "t3 = t1 @ [EvSocket (family ip) ty proto (Inr fd), EvProtect fd True]
                               @ sockopt_events sockopt destination fd"
      show thesis
      proof (cases "sys_Connect os t3 fd (sockaddr_of destination ip)")
        case (Some e)
        with sock prot have "dial dialer os ctx source destination sockopt w =
          Returned (w\<lparr>trace := trace w
                            @ protected_prefix sockopt destination ip ty proto (fresh_fd (open_fds w))
                            @ [EvConnect (fresh_fd (open_fds w)) (sockaddr_of destination ip) (Some e),
                               EvClose (fresh_fd (open_fds w)), EvCancel]\<rparr>,
                 None, Some e)"
          using ip unfolding t3_def t1_def fd_def
          by (simp add: dial_def getFd_kind [OF kind] env_defs trace_defs Let_def sockopt_step)
        with kind show thesis by (rule that(4))
      next
        case None
        note conn = None
        show thesis
        proof (cases "Network destination = Network_UDP")
          case True
          note udp = True
          have ty: "ty = SOCK_DGRAM" "proto = IPPROTO_UDP"
            using kind udp by (simp_all add: socket_kind_def)
          show thesis
          proof (cases "net_FilePacketConn os (t3 @ [EvConnect fd (sockaddr_of destination ip) None]) fd")
            case (Some e)
            with sock prot conn have "dial dialer os ctx source destination sockopt w =
              Returned (w\<lparr>trace := trace w
                            @ protected_prefix sockopt destination ip SOCK_DGRAM IPPROTO_UDP (fresh_fd (open_fds w))
                            @ [EvConnect (fresh_fd (open_fds w)) (sockaddr_of destination ip) None,
                               EvFilePacketConn (fresh_fd (open_fds w)) (Inl e),
                               EvFileClose (fresh_fd (open_fds w)), EvCancel]\<rparr>,
                 None, None)"
              using ip udp unfolding t3_def t1_def fd_def ty
              by (simp add: dial_def dial_wrap_def getFd_kind [of Network_UDP SOCK_DGRAM IPPROTO_UDP] socket_kind_def
                    env_defs trace_defs Let_def sockopt_step)
            with udp show thesis by (rule that(5))
          next
            case None
            note pc = None
            show thesis
            proof (cases "net_ResolveUDPAddr os destination")
              case (Inl e)
              with sock prot conn pc have "dial dialer os ctx source destination sockopt w =
                Returned (w\<lparr>trace := trace w
                            @ protected_prefix sockopt destination ip SOCK_DGRAM IPPROTO_UDP (fresh_fd (open_fds w))
                            @ [EvConnect (fresh_fd (open_fds w)) (sockaddr_of destination ip) None,
                               EvFilePacketConn (fresh_fd (open_fds w))
                                 (Inr (fresh_fd (open_fds w @ [fresh_fd (open_fds w)]))),
                               EvResolveUDPAddr destination (Inl e),
                               EvFileClose (fresh_fd (open_fds w)), EvCancel],
                    open_fds := open_fds w @ [fresh_fd (open_fds w @ [fresh_fd (open_fds w)])]\<rparr>,
                 None, Some e)"
                using ip udp unfolding t3_def t1_def fd_def ty
                by (simp add: dial_def dial_wrap_def getFd_kind [of Network_UDP SOCK_DGRAM IPPROTO_UDP] socket_kind_def
                      env_defs trace_defs Let_def sockopt_step)
              with udp show thesis by (rule that(6))
            next
              case (Inr destAddr)
              with sock prot conn pc have "dial dialer os ctx source destination sockopt w =
                Returned (w\<lparr>trace := trace w
                            @ protected_prefix sockopt destination ip SOCK_DGRAM IPPROTO_UDP (fresh_fd (open_fds w))
                            @ [EvConnect (fresh_fd (open_fds w)) (sockaddr_of destination ip) None,
                               EvFilePacketConn (fresh_fd (open_fds w))
                                 (Inr (fresh_fd (open_fds w @ [fresh_fd (open_fds w)]))),
                               EvResolveUDPAddr destination (Inr destAddr),
                               EvFileClose (fresh_fd (open_fds w)), EvCancel],
                    open_fds := open_fds w @ [fresh_fd (open_fds w @ [fresh_fd (open_fds w)])]\<rparr>,
                 Some (PacketConnWrapper (fresh_fd (open_fds w @ [fresh_fd (open_fds w)])) destAddr), None)"
                using ip udp unfolding t3_def t1_def fd_def ty
                by (simp add: dial_def dial_wrap_def getFd_kind [of Network_UDP SOCK_DGRAM IPPROTO_UDP] socket_kind_def
                      env_defs trace_defs Let_def sockopt_step)
              with udp show thesis by (rule that(7))
            qed
          qed
        next
          case False
          note not_udp = False
          have wrap: "dial_wrap os destination fd' w =
              (let (w1, r) = FileConn_call os fd' w
               in case r of
                    Inl err \<Rightarrow> (file_Close fd' w1, None, Some err)
                  | Inr c \<Rightarrow> (file_Close fd' w1, Some (FileConn c), None))"
            if "os_NewFile fd' = Some fd'" for fd' w
            using that not_udp by (cases "Network destination") (simp_all add: dial_wrap_def)
          show thesis
          proof (cases "net_FileConn os (t3 @ [EvConnect fd (sockaddr_of destination ip) None]) fd")
            case (Some e)
            with sock prot conn have "dial dialer os ctx source destination sockopt w =
              Returned (w\<lparr>trace := trace w
                            @ protected_prefix sockopt destination ip ty proto (fresh_fd (open_fds w))
                            @ [EvConnect (fresh_fd (open_fds w)) (sockaddr_of destination ip) None,
                               EvFileConn (fresh_fd (open_fds w)) (Inl e),
                               EvFileClose (fresh_fd (open_fds w)), EvCancel]\<rparr>,
                 None, Some e)"
              using ip unfolding t3_def t1_def fd_def
              by (simp add: dial_def wrap getFd_kind [OF kind] env_defs trace_defs Let_def sockopt_step)
            with not_udp kind show thesis by (rule that(8))
          next
            case None
            with sock prot conn have "dial dialer os ctx source destination sockopt w =
              Returned (w\<lparr>trace := trace w
                            @ protected_prefix sockopt destination ip ty proto (fresh_fd (open_fds w))
                            @ [EvConnect (fresh_fd (open_fds w)) (sockaddr_of destination ip) None,
                               EvFileConn (fresh_fd (open_fds w))
                                 (Inr (fresh_fd (open_fds w @ [fresh_fd (open_fds w)]))),
                               EvFileClose (fresh_fd (open_fds w)), EvCancel],
                    open_fds := open_fds w @ [fresh_fd (open_fds w @ [fresh_fd (open_fds w)])]\<rparr>,
                 Some (FileConn (fresh_fd (open_fds w @ [fresh_fd (open_fds w)]))), None)"
              using ip unfolding t3_def t1_def fd_def
              by (simp add: dial_def wrap getFd_kind [OF kind] env_defs trace_defs Let_def sockopt_step)
            with not_udp kind show thesis by (rule that(9))
          qed
        qed
      qed
    qed
  qed
qed

subsection \<open>Reading the trace of an attempt\<close>

lemmas proj_defs = dial_calls_def resolve_calls_def warnings_def socket_calls_def connect_calls_def
  created_fds_def

lemma sockopt_events_proj [simp]:
  "dial_calls (sockopt_events sockopt d fd) = []"
  "resolve_calls (sockopt_events sockopt d fd) = []"
  "warnings (sockopt_events sockopt d fd) = []"
  "socket_calls (sockopt_events sockopt d fd) = []"
  "connect_calls (sockopt_events sockopt d fd) = []"
  "created_fds (sockopt_events sockopt d fd) = []"
  by (cases sockopt; simp add: sockopt_events_def proj_defs)+

lemma proj_append [simp]:
  "dial_calls (xs @ ys) = dial_calls xs @ dial_calls ys"
  "resolve_calls (xs @ ys) = resolve_calls xs @ resolve_calls ys"
  "warnings (xs @ ys) = warnings xs @ warnings ys"
  "socket_calls (xs @ ys) = socket_calls xs @ socket_calls ys"
  "connect_calls (xs @ ys) = connect_calls xs @ connect_calls ys"
  "created_fds (xs @ ys) = created_fds xs @ created_fds ys"
  by (simp_all add: proj_defs)

lemma proj_Nil [simp]:
  "dial_calls [] = []" "resolve_calls [] = []" "warnings [] = []" "socket_calls [] = []"
  "connect_calls [] = []" "created_fds [] = []"
  by (simp_all add: proj_defs)

lemma proj_Cons [simp]:
  "dial_calls (x # xs) = dial_ip x @ dial_calls xs"
  "resolve_calls (x # xs) = resolve_domain x @ resolve_calls xs"
  "warnings (x # xs) = warned x @ warnings xs"
  "socket_calls (x # xs) = socket_args x @ socket_calls xs"
  "connect_calls (x # xs) = connect_arg x @ connect_calls xs"
  "created_fds (x # xs) = socket_fd x @ created_fds xs"
  by (simp_all add: proj_defs)

lemma since_append [simp]: "since w (w\<lparr>trace := trace w @ evs\<rparr>) = evs"
  by (simp add: since_def)

lemma since_append' [simp]: "since w (w\<lparr>trace := trace w @ evs, open_fds := fds\<rparr>) = evs"
  by (simp add: since_def)

lemma sockopt_events_mem:
  "x \<in> set (sockopt_events sockopt d fd) \<Longrightarrow>
     \<exists>so. sockopt = Some so \<and> x = EvApplySockopt so d fd (WithTimeout Background (10 * Second))"
  by (cases sockopt) (simp_all add: sockopt_events_def)

lemma sockopt_events_udp [simp]: "\<not> udp_addr_failed (sockopt_events sockopt d fd)"
  by (cases sockopt) (simp_all add: sockopt_events_def udp_addr_failed_def)

lemma udp_addr_failed_simps [simp]:
  "udp_addr_failed [] = False"
  "udp_addr_failed (x # xs) = (is_udp_addr_error x \<or> udp_addr_failed xs)"
  "udp_addr_failed (xs @ ys) = (udp_addr_failed xs \<or> udp_addr_failed ys)"
  by (simp_all add: udp_addr_failed_def)

lemma packet_conn_failed_simps [simp]:
  "packet_conn_failed [] = False"
  "packet_conn_failed (x # xs) = (is_pc_error x \<or> packet_conn_failed xs)"
  "packet_conn_failed (xs @ ys) = (packet_conn_failed xs \<or> packet_conn_failed ys)"
  by (simp_all add: packet_conn_failed_def)

lemma sockopt_events_pc [simp]: "\<not> packet_conn_failed (sockopt_events sockopt d fd)"
  by (cases sockopt) (simp_all add: sockopt_events_def)

lemma sockopt_events_no_dial [simp]: "x \<in> set (sockopt_events sockopt d fd) \<Longrightarrow> \<not> is_dial x"
  by (cases sockopt) (auto simp: sockopt_events_def)

lemma under_context_simps [simp]:
  "under_context c [] = []"
  "under_context c (x # xs) = (if c \<in> set (call_contexts x) then x # under_context c xs else under_context c xs)"
  "under_context c (xs @ ys) = under_context c xs @ under_context c ys"
  by (simp_all add: under_context_def)

lemma under_context_sockopt [simp]:
  "under_context (WithTimeout Background (10 * Second)) (sockopt_events sockopt d fd)
     = sockopt_events sockopt d fd"
  by (cases sockopt) (simp_all add: sockopt_events_def)

lemma dial_context: "dial dialer os c source destination sockopt w
                       = dial dialer os c' source destination sockopt w"
  by (simp add: dial_def)

lemma no_dial_calls: "\<forall>x\<in>set evs. \<not> is_dial x \<Longrightarrow> dial_calls evs = []"
proof (induction evs)
  case Nil then show ?case by simp
next
  case (Cons x evs)
  then show ?case by (cases x) simp_all
qed



text \<open>
  Every attempt on an IP address returns; its events start with the call of \<^verbatim>\<open>dial\<close>
  and hold no other such call, no resolver call and no warning. An attempt that returns an
  error has not seen \<^verbatim>\<open>net.FilePacketConn\<close> fail.
\<close>

lemma dial_attempt:
  assumes "Address destination = Some (IPAddr ip)"
  obtains w' conn err evs where
    "dial dialer os ctx source destination sockopt w = Returned (w', conn, err)"
    "trace w' = trace w @ EvDial destination # evs"
    "\<forall>x\<in>set evs. \<not> is_dial x"
    "resolve_calls evs = []"
    "warnings evs = []"
    "err \<noteq> None \<longrightarrow> \<not> packet_conn_failed evs"
  using assms
proof (cases rule: dial_cases [where dialer = dialer and os = os and ctx = ctx
          and source = source and sockopt = sockopt and w = w])
  case no_socket
  show ?thesis by (rule that [OF no_socket(2)]) (auto simp: attempt_head_def)
next
  case (socket_error ty proto e)
  show ?thesis by (rule that [OF socket_error(2)]) (auto simp: attempt_head_def)
next
  case (protect_false ty proto)
  show ?thesis by (rule that [OF protect_false(2)]) (auto simp: attempt_head_def)
next
  case (connect_error ty proto e)
  show ?thesis
    by (rule that [OF connect_error(2)]) (auto simp: attempt_head_def protected_prefix_def)
next
  case (packet_conn_error e)
  show ?thesis
    by (rule that [OF packet_conn_error(2)]) (auto simp: attempt_head_def protected_prefix_def)
next
  case (udp_addr_error e)
  show ?thesis
    by (rule that [OF udp_addr_error(2)]) (auto simp: attempt_head_def protected_prefix_def)
next
  case (packet_conn destAddr)
  show ?thesis
    by (rule that [OF packet_conn(2)]) (auto simp: attempt_head_def protected_prefix_def)
next
  case (file_conn_error ty proto e)
  show ?thesis
    by (rule that [OF file_conn_error(3)]) (auto simp: attempt_head_def protected_prefix_def)
next
  case (file_conn ty proto)
  show ?thesis
    by (rule that [OF file_conn(3)]) (auto simp: attempt_head_def protected_prefix_def)
qed



lemma dial_packet_conn_error:
  assumes "Address destination = Some (IPAddr ip)"
    and "dial dialer os ctx source destination sockopt w = Returned (w', conn, err)"
    and "EvFilePacketConn fd (Inl e) \<in> set (since w w')"
  shows "conn = None \<and> err = None \<and> Network destination = Network_UDP
         \<and> connect_calls (since w w') = [sockaddr_of destination ip]
         \<and> EvConnect fd (sockaddr_of destination ip) None \<in> set (since w w')"
  using assms(1)
proof (cases rule: dial_cases [where dialer = dialer and os = os and ctx = ctx
          and source = source and sockopt = sockopt and w = w])
  case no_socket
  then show ?thesis using assms(2,3) by (auto simp: attempt_head_def)
next
  case (socket_error ty proto e)
  then show ?thesis using assms(2,3) by (auto simp: attempt_head_def)
next
  case (protect_false ty proto)
  then show ?thesis using assms(2,3) by (auto simp: attempt_head_def)
next
  case (connect_error ty proto e)
  then show ?thesis using assms(2,3)
    by (auto simp: attempt_head_def protected_prefix_def dest: sockopt_events_mem)
next
  case (packet_conn_error e)
  then show ?thesis using assms(2,3)
    by (auto simp: attempt_head_def protected_prefix_def dest: sockopt_events_mem)
next
  case (udp_addr_error e)
  then show ?thesis using assms(2,3)
    by (auto simp: attempt_head_def protected_prefix_def dest: sockopt_events_mem)
next
  case (packet_conn destAddr)
  then show ?thesis using assms(2,3)
    by (auto simp: attempt_head_def protected_prefix_def dest: sockopt_events_mem)
next
  case (file_conn_error ty proto e)
  then show ?thesis using assms(2,3)
    by (auto simp: attempt_head_def protected_prefix_def dest: sockopt_events_mem)
next
  case (file_conn ty proto)
  then show ?thesis using assms(2,3)
    by (auto simp: attempt_head_def protected_prefix_def dest: sockopt_events_mem)
qed

text \<open>
  The one path on which an attempt returns no connection and leaves a descriptor open: when
  the resolution of the datagram peer address fails, the packet connection already made from
  the file is not closed, and its descriptor stays open.
\<close>

lemma dial_udp_addr_error_descriptor:
  assumes "Address destination = Some (IPAddr ip)"
    and "dial dialer os ctx source destination sockopt w = Returned (w', conn, err)"
    and "udp_addr_failed (since w w')"
  shows "conn = None \<and> err \<noteq> None
         \<and> open_fds w' = open_fds w @ [fresh_fd (open_fds w @ [fresh_fd (open_fds w)])]
         \<and> EvFilePacketConn (fresh_fd (open_fds w))
              (Inr (fresh_fd (open_fds w @ [fresh_fd (open_fds w)]))) \<in> set (since w w')"
  using assms(1)
proof (cases rule: dial_cases [where dialer = dialer and os = os and ctx = ctx
          and source = source and sockopt = sockopt and w = w])
  case no_socket
  then show ?thesis using assms(2,3) by (auto simp: attempt_head_def)
next
  case (socket_error ty proto e)
  then show ?thesis using assms(2,3) by (auto simp: attempt_head_def)
next
  case (protect_false ty proto)
  then show ?thesis using assms(2,3) by (auto simp: attempt_head_def)
next
  case (connect_error ty proto e)
  then show ?thesis using assms(2,3) by (auto simp: attempt_head_def protected_prefix_def)
next
  case (packet_conn_error e)
  then show ?thesis using assms(2,3) by (auto simp: attempt_head_def protected_prefix_def)
next
  case (udp_addr_error e)
  then show ?thesis using assms(2,3) by (auto simp: attempt_head_def protected_prefix_def)
next
  case (packet_conn destAddr)
  then show ?thesis using assms(2,3) by (auto simp: attempt_head_def protected_prefix_def)
next
  case (file_conn_error ty proto e)
  then show ?thesis using assms(2,3) by (auto simp: attempt_head_def protected_prefix_def)
next
  case (file_conn ty proto)
  then show ?thesis using assms(2,3) by (auto simp: attempt_head_def protected_prefix_def)
qed

section \<open>The loop over the candidates\<close>

lemma tried_in_order_destination [simp]:
  "tried_in_order dialer os ctx source (destination\<lparr>Address := a\<rparr>) sockopt w ips r
     = tried_in_order dialer os ctx source destination sockopt w ips r"
  by (induction dialer os ctx source destination sockopt w ips r rule: tried_in_order.induct)
     (auto split: result.splits option.splits)

text \<open>
  The loop, entered at an index where it does not break, tries a non-empty prefix of the
  candidates in the sense of \<open>tried_in_order\<close>, and stops before the end of the list only
  with a nil error.
\<close>

lemma Dial_loop_tried:
  assumes "i = 0 \<or> err \<noteq> None"
  shows "\<exists>k r. Dial_loop dialer os ctx source destination sockopt i conn err (ip # ips) w = Returned r
           \<and> 0 < k \<and> k \<le> Suc (length ips)
           \<and> tried_in_order dialer os ctx source destination sockopt (enter i err ip w)
                (take k (ip # ips)) r
           \<and> (k < Suc (length ips) \<longrightarrow> snd (snd r) = None)"
  using assms
proof (induction ips arbitrary: i conn err ip w destination)
  case Nil
  have a: "Address (destination\<lparr>Address := Some (IPAddr ip)\<rparr>) = Some (IPAddr ip)" by simp
  from Nil have w: "(if 0 < i then case err of None \<Rightarrow> w | Some e \<Rightarrow> emit (EvDebug ip) (emit (EvWarn e) w)
                  else w) = enter i err ip w"
    by (simp add: enter_def)
  from a obtain w' c e evs where
    d: "dial dialer os ctx source (destination\<lparr>Address := Some (IPAddr ip)\<rparr>) sockopt (enter i err ip w)
          = Returned (w', c, e)"
    by (rule dial_attempt)
  from Nil have ne: "\<not> (0 < i \<and> err = None)" by auto
  have "Dial_loop dialer os ctx source destination sockopt i conn err [ip] w = Returned (w', c, e)"
    using d by (simp add: IPAddress_def w ne)
  moreover have "tried_in_order dialer os ctx source destination sockopt (enter i err ip w)
                   (take 1 [ip]) (w', c, e)"
    using d by simp
  ultimately show ?case by (intro exI [of _ 1] exI [of _ "(w', c, e)"]) simp
next
  case (Cons ip' rest)
  have a: "Address (destination\<lparr>Address := Some (IPAddr ip)\<rparr>) = Some (IPAddr ip)" by simp
  from Cons.prems have w: "(if 0 < i then case err of None \<Rightarrow> w | Some e \<Rightarrow> emit (EvDebug ip) (emit (EvWarn e) w)
                  else w) = enter i err ip w"
    by (simp add: enter_def)
  from a obtain w' c e evs where
    d: "dial dialer os ctx source (destination\<lparr>Address := Some (IPAddr ip)\<rparr>) sockopt (enter i err ip w)
          = Returned (w', c, e)"
    by (rule dial_attempt)
  have step: "Dial_loop dialer os ctx source destination sockopt i conn err (ip # ip' # rest) w
          = Dial_loop dialer os ctx source (destination\<lparr>Address := Some (IPAddr ip)\<rparr>) sockopt
              (Suc i) c e (ip' # rest) w'"
  proof -
    from Cons.prems have ne: "\<not> (0 < i \<and> err = None)" by auto
    show ?thesis
      by (subst Dial_loop.simps(2)) (simp add: IPAddress_def w ne d del: Dial_loop.simps)
  qed
  show ?case
  proof (cases e)
    case None
    have "Dial_loop dialer os ctx source destination sockopt i conn err (ip # ip' # rest) w
            = Returned (w', c, e)"
      unfolding step using None by simp
    moreover have "tried_in_order dialer os ctx source destination sockopt (enter i err ip w)
                   (take 1 (ip # ip' # rest)) (w', c, e)"
      using d by simp
    ultimately show ?thesis
      using None by (intro exI [of _ 1] exI [of _ "(w', c, e)"]) simp
  next
    case (Some e1)
    have "Suc i = 0 \<or> e \<noteq> None" using Some by simp
    from Cons.IH [OF this, of "destination\<lparr>Address := Some (IPAddr ip)\<rparr>" c ip' w']
    obtain k r where
      l: "Dial_loop dialer os ctx source (destination\<lparr>Address := Some (IPAddr ip)\<rparr>) sockopt
            (Suc i) c e (ip' # rest) w' = Returned r"
      and k: "0 < k" "k \<le> Suc (length rest)"
      and t: "tried_in_order dialer os ctx source destination sockopt (enter (Suc i) e ip' w')
                (take k (ip' # rest)) r"
      and s: "k < Suc (length rest) \<longrightarrow> snd (snd r) = None"
      by auto
    from k obtain k' where k': "k = Suc k'" by (cases k) auto
    have en: "enter (Suc i) e ip' w' = emit (EvDebug ip') (emit (EvWarn e1) w')"
      using Some by (simp add: enter_def)
    have "tried_in_order dialer os ctx source destination sockopt (enter i err ip w)
            (take (Suc k) (ip # ip' # rest)) r"
      using t d Some unfolding k' en by simp
    then show ?thesis
      using l k s unfolding step by (intro exI [of _ "Suc k"] exI [of _ r]) simp
  qed
qed

lemma tried_last:
  assumes "tried_in_order dialer os ctx source destination sockopt w ips r"
  shows "\<exists>w0 pre.
           dial dialer os ctx source (destination\<lparr>Address := Some (IPAddr (last ips))\<rparr>) sockopt w0
             = Returned r
         \<and> trace w0 = trace w @ pre
         \<and> dial_calls pre = butlast ips
         \<and> resolve_calls pre = []
         \<and> \<not> packet_conn_failed pre
         \<and> length (warnings pre) = length ips - 1"
  using assms
proof (induction dialer os ctx source destination sockopt w ips r rule: tried_in_order.induct)
  case (1 dialer os ctx source destination sockopt w r)
  then show ?case by simp
next
  case (2 dialer os ctx source destination sockopt w ip r)
  then show ?case by (intro exI [of _ w] exI [of _ "[]"]) simp
next
  case (3 dialer os ctx source destination sockopt w ip ip' ips r)
  let ?d = "destination\<lparr>Address := Some (IPAddr ip)\<rparr>"
  have a: "Address ?d = Some (IPAddr ip)" by simp
  from a obtain w1 c1 e1' evs where
    d: "dial dialer os ctx source ?d sockopt w = Returned (w1, c1, e1')"
    and tr: "trace w1 = trace w @ EvDial ?d # evs"
    and nd: "\<forall>x\<in>set evs. \<not> is_dial x"
    and nr: "resolve_calls evs = []"
    and nw: "warnings evs = []"
    and pc: "e1' \<noteq> None \<longrightarrow> \<not> packet_conn_failed evs"
    by (rule dial_attempt)
  from "3.prems" d obtain e1 where e1: "e1' = Some e1"
    and t: "tried_in_order dialer os ctx source destination sockopt
              (emit (EvDebug ip') (emit (EvWarn e1) w1)) (ip' # ips) r"
    by (cases e1') auto
  from "3.IH" [OF d [unfolded e1] refl refl refl t]
  obtain w0 pre where
    l: "dial dialer os ctx source (destination\<lparr>Address := Some (IPAddr (last (ip' # ips)))\<rparr>) sockopt w0
          = Returned r"
    and tr0: "trace w0 = trace (emit (EvDebug ip') (emit (EvWarn e1) w1)) @ pre"
    and dc: "dial_calls pre = butlast (ip' # ips)"
    and rc: "resolve_calls pre = []"
    and np: "\<not> packet_conn_failed pre"
    and lw: "length (warnings pre) = length (ip' # ips) - 1"
    by blast
  let ?pre = "EvDial ?d # evs @ [EvWarn e1, EvDebug ip'] @ pre"
  have "trace w0 = trace w @ ?pre" using tr0 tr by (simp add: emit_def)
  moreover have "dial_calls ?pre = butlast (ip # ip' # ips)"
    using dc no_dial_calls [OF nd] by simp
  moreover have "resolve_calls ?pre = []" using rc nr by simp
  moreover have "\<not> packet_conn_failed ?pre" using np pc e1 by simp
  moreover have "length (warnings ?pre) = length (ip # ip' # ips) - 1" using lw nw by simp
  ultimately show ?case using l by (intro exI [of _ w0] exI [of _ ?pre]) simp
qed

lemma tried_events:
  assumes "tried_in_order dialer os ctx source destination sockopt w ips (w', conn, err)"
  obtains w0 pre evs where
    "dial dialer os ctx source (destination\<lparr>Address := Some (IPAddr (last ips))\<rparr>) sockopt w0
       = Returned (w', conn, err)"
    "trace w0 = trace w @ pre"
    "trace w' = trace w0 @ EvDial (destination\<lparr>Address := Some (IPAddr (last ips))\<rparr>) # evs"
    "\<forall>x\<in>set evs. \<not> is_dial x"
    "dial_calls pre = butlast ips"
    "resolve_calls pre = []"
    "resolve_calls evs = []"
    "\<not> packet_conn_failed pre"
proof -
  let ?d = "destination\<lparr>Address := Some (IPAddr (last ips))\<rparr>"
  from tried_last [OF assms] obtain w0 pre where
    l: "dial dialer os ctx source ?d sockopt w0 = Returned (w', conn, err)"
    and tr0: "trace w0 = trace w @ pre"
    and dc: "dial_calls pre = butlast ips"
    and rc: "resolve_calls pre = []"
    and np: "\<not> packet_conn_failed pre"
    by blast
  have a: "Address ?d = Some (IPAddr (last ips))" by simp
  from a obtain w1 c1 e1 evs where
    d: "dial dialer os ctx source ?d sockopt w0 = Returned (w1, c1, e1)"
    and tr: "trace w1 = trace w0 @ EvDial ?d # evs"
    and nd: "\<forall>x\<in>set evs. \<not> is_dial x"
    and nr: "resolve_calls evs = []"
    by (rule dial_attempt)
  from d l have w1: "w1 = w'" by simp
  show thesis by (rule that [OF l tr0 tr [unfolded w1] nd dc rc nr np])
qed

lemma Dial_ip:
  assumes "Network destination \<noteq> Network_Unknown" and "Address destination = Some (IPAddr ip)"
  shows "Dial dialer os ctx source destination sockopt w
           = dial dialer os ctx source destination sockopt w"
proof -
  have d: "destination\<lparr>Address := Some (IPAddr ip)\<rparr> = destination" using assms(2) by simp
  from assms(2) obtain w' c e evs where
    "dial dialer os ctx source destination sockopt w = Returned (w', c, e)"
    by (rule dial_attempt)
  then show ?thesis using assms by (simp add: Dial_def IPAddress_def d)
qed

lemma Dial_domain:
  assumes "Network destination \<noteq> Network_Unknown"
    and "Address destination = Some (DomainAddr domain)"
    and "resolver dialer (trace w) ctx domain = (ips, None)"
    and "ips \<noteq> []"
  shows "Dial dialer os ctx source destination sockopt w
           = Dial_loop dialer os ctx source destination sockopt 0 None None ips
               (w\<lparr>trace := trace w @ [EvResolve ctx domain ips None]\<rparr>)"
  using assms by (simp add: Dial_def resolve_def emit_def Let_def)

text \<open>
  A call of \<^verbatim>\<open>Dial\<close> that returns has either failed in resolution, with the resolver
  call as its only event, or ended with an attempt on one of the candidates.
\<close>

lemma Dial_run:
  assumes "Dial dialer os ctx source destination sockopt w = Returned (w', conn, err)"
  obtains (resolution_failed) domain ips e0 where
      "since w w' = [EvResolve ctx domain ips e0]" "conn = None" "err \<noteq> None"
  | (attempted) k w0 pre evs where
      "0 < k" "k \<le> length (candidates dialer ctx destination w)"
      "k < length (candidates dialer ctx destination w) \<longrightarrow> err = None"
      "dial dialer os ctx source
         (destination\<lparr>Address := Some (IPAddr (last (take k (candidates dialer ctx destination w))))\<rparr>)
         sockopt w0 = Returned (w', conn, err)"
      "trace w' = trace w0
         @ EvDial (destination\<lparr>Address := Some (IPAddr (last (take k (candidates dialer ctx destination w))))\<rparr>)
         # evs"
      "since w w' = pre
         @ EvDial (destination\<lparr>Address := Some (IPAddr (last (take k (candidates dialer ctx destination w))))\<rparr>)
         # evs"
      "\<forall>x\<in>set evs. \<not> is_dial x"
      "dial_calls pre = butlast (take k (candidates dialer ctx destination w))"
      "\<not> packet_conn_failed pre"
proof -
  from assms have n: "Network destination \<noteq> Network_Unknown" and a: "Address destination \<noteq> None"
    by (auto simp: Dial_def split: if_splits)
  let ?c = "candidates dialer ctx destination w"
  have loop: thesis
    if l: "Dial dialer os ctx source destination sockopt w
             = Dial_loop dialer os ctx source destination sockopt 0 None None ?c
                 (w\<lparr>trace := trace w @ res\<rparr>)"
      and ne: "?c \<noteq> []"
      and res: "dial_calls res = []" "\<not> packet_conn_failed res"
    for res
  proof -
    let ?w1 = "w\<lparr>trace := trace w @ res\<rparr>"
    from ne obtain ip rest where ips: "?c = ip # rest" by (cases ?c) auto
    have "(0::nat) = 0 \<or> (None :: error option) \<noteq> None" by simp
    from Dial_loop_tried [OF this, of dialer os ctx source destination sockopt None ip rest ?w1]
    obtain k r where
      lr: "Dial_loop dialer os ctx source destination sockopt 0 None None ?c ?w1 = Returned r"
      and k: "0 < k" "k \<le> length ?c"
      and t: "tried_in_order dialer os ctx source destination sockopt ?w1 (take k ?c) r"
      and s: "k < length ?c \<longrightarrow> snd (snd r) = None"
      unfolding ips by (auto simp: enter_def)
    from assms l lr have r: "r = (w', conn, err)" by simp
    from t [unfolded r] obtain w0 pre evs where
      d: "dial dialer os ctx source (destination\<lparr>Address := Some (IPAddr (last (take k ?c)))\<rparr>) sockopt w0
            = Returned (w', conn, err)"
      and tr0: "trace w0 = trace ?w1 @ pre"
      and tr: "trace w' = trace w0 @ EvDial (destination\<lparr>Address := Some (IPAddr (last (take k ?c)))\<rparr>) # evs"
      and nd: "\<forall>x\<in>set evs. \<not> is_dial x"
      and dc: "dial_calls pre = butlast (take k ?c)"
      and np: "\<not> packet_conn_failed pre"
      by (rule tried_events)
    have s': "since w w' = (res @ pre)
                @ EvDial (destination\<lparr>Address := Some (IPAddr (last (take k ?c)))\<rparr>) # evs"
      using tr tr0 by (simp add: since_def)
    show thesis
    proof (rule attempted [OF k _ d tr s' nd])
      show "k < length ?c \<longrightarrow> err = None" using s r by simp
      show "dial_calls (res @ pre) = butlast (take k ?c)" using dc res by simp
      show "\<not> packet_conn_failed (res @ pre)" using np res by simp
    qed
  qed
  from a obtain ad where ad: "Address destination = Some ad" by auto
  show thesis
  proof (cases ad)
    case (IPAddr ip)
    have c: "?c = [ip]" using ad IPAddr by (simp add: candidates_def)
    have "Dial dialer os ctx source destination sockopt w
            = Dial_loop dialer os ctx source destination sockopt 0 None None ?c
                (w\<lparr>trace := trace w @ []\<rparr>)"
      unfolding c using n ad IPAddr by (simp add: Dial_def del: Dial_loop.simps)
    then show thesis by (rule loop) (simp_all add: c)
  next
    case (DomainAddr domain)
    obtain ips e0 where rs: "resolver dialer (trace w) ctx domain = (ips, e0)"
      by (cases "resolver dialer (trace w) ctx domain")
    have c: "?c = ips" using ad DomainAddr rs by (simp add: candidates_def)
    show thesis
    proof (cases "e0 = None \<and> ips \<noteq> []")
      case True
      have "Dial dialer os ctx source destination sockopt w
            = Dial_loop dialer os ctx source destination sockopt 0 None None ?c
                (w\<lparr>trace := trace w @ [EvResolve ctx domain ips None]\<rparr>)"
        unfolding c using Dial_domain [OF n, of domain dialer w ctx ips] ad DomainAddr rs True
        by simp
      then show thesis by (rule loop) (simp_all add: c True)
    next
      case False
      then have "Dial dialer os ctx source destination sockopt w
          = Returned (w\<lparr>trace := trace w @ [EvResolve ctx domain ips e0]\<rparr>, None,
                      if e0 = None then Some ErrEmptyResponse else e0)"
        using n ad DomainAddr rs
        by (auto simp: Dial_def resolve_def emit_def Let_def simp del: Dial_loop.simps)
      with assms have "since w w' = [EvResolve ctx domain ips e0]" "conn = None" "err \<noteq> None"
        by auto
      then show thesis by (rule resolution_failed)
    qed
  qed
qed


section \<open>Evaluating the examples\<close>

lemmas example_defs = example_dialer_def example_os_def example_destination_def example_resolver_def
  noopProtector_def peer_of_def w_start_def ip_a_def ip_b_def

lemmas eval_defs = Dial_def dial_def dial_wrap_def getFd_def env_defs resolve_def Let_def
  os_NewFile_def fresh_fd_def copy_into_def IPAddress_def IPv4len_def IPPROTO_TCP_def IPPROTO_UDP_def

lemmas example_defs2 = example_defs refusing_dialer_def reachable_os_def wrap_fails_once_os_def
  wrap_fails_os_def packet_conn_fails_os_def no_descriptors_os_def dest_a_def dest_b_def ip_six_def

lemmas call_defs = example_call_def refused_call_def wrap_once_call_def wrap_call_def packet_call_def
  no_socket_attempt_def reachable_attempt_def dest_six_def





lemma packet_call_run:
  "packet_call
     = Returned (w_start\<lparr>trace :=
                   [EvDial dest_six, EvWithTimeout Background (10 * Second),
                    EvSocket AF_INET6 SOCK_DGRAM 17 (Inr 3), EvProtect 3 True,
                    EvConnect 3 (SockaddrInet6 53 ip_six) None,
                    EvFilePacketConn 3 (Inl (Errno 24)), EvFileClose 3, EvCancel]\<rparr>,
                 None, None)"
  by (simp add: call_defs example_defs2 eval_defs)


lemma reachable_attempt_run:
  "reachable_attempt
     = Returned (w_start\<lparr>trace :=
                   [EvDial dest_b, EvWithTimeout Background (10 * Second),
                    EvSocket AF_INET SOCK_STREAM 6 (Inr 3), EvProtect 3 True,
                    EvConnect 3 (SockaddrInet4 443 ip_b) None,
                    EvFileConn 3 (Inr 4), EvFileClose 3, EvCancel],
                 open_fds := [0, 1, 2, 4]\<rparr>,
                 Some (FileConn 4), None)"
  by (simp add: call_defs example_defs2 eval_defs)

section \<open>The claims of the specification\<close>

subsection \<open>Candidates and their order\<close>



text \<open>
  Claim C7. For a destination with a literal IP address the only candidate is this address:
  \<^verbatim>\<open>Dial\<close> is the single attempt on the destination, exactly one attempt is recorded and
  the resolver is not called.
\<close>

theorem Dial_literal_ip:
  assumes "Network destination \<noteq> Network_Unknown" and "Address destination = Some (IPAddr ip)"
  shows "\<exists>w' conn err.
           Dial dialer os ctx source destination sockopt w = Returned (w', conn, err)
         \<and> dial dialer os ctx source destination sockopt w = Returned (w', conn, err)
         \<and> candidates dialer ctx destination w = [ip]
         \<and> dial_calls (since w w') = [ip]
         \<and> resolve_calls (since w w') = []"
proof -
  from assms(2) obtain w' conn err evs where
    d: "dial dialer os ctx source destination sockopt w = Returned (w', conn, err)"
    and tr: "trace w' = trace w @ EvDial destination # evs"
    and nd: "\<forall>x\<in>set evs. \<not> is_dial x"
    and nr: "resolve_calls evs = []"
    by (rule dial_attempt)
  have s: "since w w' = EvDial destination # evs" using tr by (simp add: since_def)
  have "dial_calls (since w w') = [ip]"
    unfolding s using no_dial_calls [OF nd] assms(2) by simp
  moreover have "resolve_calls (since w w') = []" unfolding s using nr by simp
  moreover have "candidates dialer ctx destination w = [ip]"
    using assms(2) by (simp add: candidates_def)
  ultimately show ?thesis using d Dial_ip [OF assms, of dialer os ctx source sockopt w] by simp
qed

text \<open>
  The theorem at the literal address \<open>10.0.0.2\<close>.
\<close>

theorem Dial_literal_ip_witness:
  "\<exists>w' conn err.
      Dial example_dialer example_os (CallerContext 1) None dest_b None w_start = Returned (w', conn, err)
    \<and> dial example_dialer example_os (CallerContext 1) None dest_b None w_start = Returned (w', conn, err)
    \<and> candidates example_dialer (CallerContext 1) dest_b w_start = [ip_b]
    \<and> dial_calls (since w_start w') = [ip_b]
    \<and> resolve_calls (since w_start w') = []"
proof -
  have h1: "Network dest_b \<noteq> Network_Unknown" by (simp add: dest_b_def)
  have h2: "Address dest_b = Some (IPAddr ip_b)" by (simp add: dest_b_def)
  show ?thesis by (rule Dial_literal_ip [OF h1 h2])
qed

subsection \<open>Invalid destinations and failed resolution\<close>

text \<open>
  Claim C9. A call of \<^verbatim>\<open>Dial\<close> whose destination has the unknown network kind or a
  nil address panics with ``connect to invalid destination'' instead of returning an error.
  The world at the panic is the world of the call: no resolver call was made and no socket
  was created.
\<close>

theorem Dial_invalid_destination_panics:
  assumes "Network destination = Network_Unknown \<or> Address destination = None"
  shows "Dial dialer os ctx source destination sockopt w
           = Panicked ''connect to invalid destination'' w"
  using assms by (simp add: Dial_def)

text \<open>
  The theorem at a destination of unknown kind and at one without an address.
\<close>

theorem Dial_invalid_destination_panics_witness:
  "Dial example_dialer example_os Background None
      (example_destination\<lparr>Network := Network_Unknown\<rparr>) None w_start
     = Panicked ''connect to invalid destination'' w_start
   \<and> Dial example_dialer example_os Background None
      (example_destination\<lparr>Address := None\<rparr>) None w_start
     = Panicked ''connect to invalid destination'' w_start"
proof -
  have h1: "Network (example_destination\<lparr>Network := Network_Unknown\<rparr>) = Network_Unknown
            \<or> Address (example_destination\<lparr>Network := Network_Unknown\<rparr>) = None"
    by simp
  have h2: "Network (example_destination\<lparr>Address := None\<rparr>) = Network_Unknown
            \<or> Address (example_destination\<lparr>Address := None\<rparr>) = None"
    by simp
  show ?thesis
    using Dial_invalid_destination_panics [OF h1] Dial_invalid_destination_panics [OF h2]
    by simp
qed

text \<open>
  Claim C2. For a domain destination, an error of the resolver is returned as it is, and a
  resolution without error and without addresses returns \<^verbatim>\<open>dns.ErrEmptyResponse\<close>. In
  both cases the only call made is the call of the resolver: no attempt, no socket, no
  connect, and the open descriptors are those of before.
\<close>

theorem Dial_resolution_failure:
  assumes "Network destination \<noteq> Network_Unknown"
    and "Address destination = Some (DomainAddr domain)"
  shows "(resolver dialer (trace w) ctx domain = (ips, Some e) \<longrightarrow>
            Dial dialer os ctx source destination sockopt w
              = Returned (w\<lparr>trace := trace w @ [EvResolve ctx domain ips (Some e)]\<rparr>, None, Some e))
       \<and> (resolver dialer (trace w) ctx domain = ([], None) \<longrightarrow>
            Dial dialer os ctx source destination sockopt w
              = Returned (w\<lparr>trace := trace w @ [EvResolve ctx domain [] None]\<rparr>,
                          None, Some ErrEmptyResponse))"
  using assms by (simp add: Dial_def resolve_def emit_def Let_def)

text \<open>
  The theorem at a name the example resolver does not know and at one without addresses.
\<close>

theorem Dial_resolution_failure_witness:
  "Dial example_dialer example_os (CallerContext 1) None
       (example_destination\<lparr>Address := Some (DomainAddr ''unknown.test'')\<rparr>) None w_start
     = Returned (w_start\<lparr>trace := [EvResolve (CallerContext 1) ''unknown.test'' []
                                       (Some (ResolveError ''no such host''))]\<rparr>,
                 None, Some (ResolveError ''no such host''))
   \<and> Dial example_dialer example_os (CallerContext 1) None
       (example_destination\<lparr>Address := Some (DomainAddr ''empty.test'')\<rparr>) None w_start
     = Returned (w_start\<lparr>trace := [EvResolve (CallerContext 1) ''empty.test'' [] None]\<rparr>,
                 None, Some ErrEmptyResponse)"
proof -
  have n: "Network (example_destination\<lparr>Address := Some (DomainAddr d)\<rparr>) \<noteq> Network_Unknown" for d
    by (simp add: example_destination_def)
  have a: "Address (example_destination\<lparr>Address := Some (DomainAddr d)\<rparr>) = Some (DomainAddr d)" for d
    by simp
  have r1: "resolver example_dialer (trace w_start) (CallerContext 1) ''unknown.test''
              = ([], Some (ResolveError ''no such host''))"
    by (simp add: example_dialer_def example_resolver_def)
  have r2: "resolver example_dialer (trace w_start) (CallerContext 1) ''empty.test'' = ([], None)"
    by (simp add: example_dialer_def example_resolver_def)
  show ?thesis
    using Dial_resolution_failure [OF n a, where dialer = example_dialer and w = w_start
            and ctx = "CallerContext 1" and ips = "[]" and e = "ResolveError ''no such host''"
            and os = example_os and source = None and sockopt = None]
          r1 r2
    by (simp add: w_start_def)
qed

subsection \<open>One attempt\<close>

text \<open>
  Claim C3. An attempt on an IP address asks for one socket whose address family is
  \<^verbatim>\<open>AF_INET\<close> when the address has exactly four bytes and \<^verbatim>\<open>AF_INET6\<close> for any
  other length, and whose type and protocol follow the network kind: stream and TCP for the
  stream kind, datagram and UDP for the datagram kind, stream and protocol 0 for the unix
  kind. For any other kind the attempt asks for no socket, creates no descriptor and returns
  the error ``unknow network''.
\<close>

theorem dial_socket_parameters:
  "\<exists>w' conn err.
     dial dialer os ctx source \<lparr>Address = Some (IPAddr ip), Port = port, Network = network\<rparr> sockopt w
       = Returned (w', conn, err)
     \<and> socket_calls (since w w') =
         (let a = (if length ip = 4 then AF_INET else AF_INET6)
          in case network of
               Network_TCP \<Rightarrow> [(a, SOCK_STREAM, IPPROTO_TCP)]
             | Network_UDP \<Rightarrow> [(a, SOCK_DGRAM, IPPROTO_UDP)]
             | Network_UNIX \<Rightarrow> [(a, SOCK_STREAM, 0)]
             | _ \<Rightarrow> [])
     \<and> (case network of
           Network_TCP \<Rightarrow> True
         | Network_UDP \<Rightarrow> True
         | Network_UNIX \<Rightarrow> True
         | _ \<Rightarrow> conn = None \<and> err = Some (ErrorString ''unknow network'')
                  \<and> created_fds (since w w') = [] \<and> open_fds w' = open_fds w)"
proof -
  let ?d = "\<lparr>Address = Some (IPAddr ip), Port = port, Network = network\<rparr>"
  have a: "Address ?d = Some (IPAddr ip)" by simp
  from a show ?thesis
  proof (cases rule: dial_cases [where dialer = dialer and os = os and ctx = ctx
          and source = source and sockopt = sockopt and w = w])
    case no_socket
    then show ?thesis
      by (cases network) (simp_all add: socket_kind_def attempt_head_def)
  next
    case (socket_error ty proto e)
    then show ?thesis
      by (cases network)
         (auto simp: socket_kind_def attempt_head_def family_def IPv4len_def)
  next
    case (protect_false ty proto)
    then show ?thesis
      by (cases network)
         (auto simp: socket_kind_def attempt_head_def family_def IPv4len_def)
  next
    case (connect_error ty proto e)
    then show ?thesis
      by (cases network)
         (auto simp: socket_kind_def attempt_head_def protected_prefix_def family_def IPv4len_def)
  next
    case (packet_conn_error e)
    then show ?thesis
      by (auto simp: attempt_head_def protected_prefix_def family_def IPv4len_def)
  next
    case (udp_addr_error e)
    then show ?thesis
      by (auto simp: attempt_head_def protected_prefix_def family_def IPv4len_def)
  next
    case (packet_conn destAddr)
    then show ?thesis
      by (auto simp: attempt_head_def protected_prefix_def family_def IPv4len_def)
  next
    case (file_conn_error ty proto e)
    then show ?thesis
      by (cases network)
         (auto simp: socket_kind_def attempt_head_def protected_prefix_def family_def IPv4len_def)
  next
    case (file_conn ty proto)
    then show ?thesis
      by (cases network)
         (auto simp: socket_kind_def attempt_head_def protected_prefix_def family_def IPv4len_def)
  qed
qed

text \<open>
  The theorem at the datagram destination \<open>[2001:db8::1]:53\<close>: an IPv6 datagram socket.
\<close>

theorem dial_socket_parameters_witness:
  "\<exists>w' conn err.
     dial example_dialer example_os Background None
       \<lparr>Address = Some (IPAddr ip_six), Port = 53, Network = Network_UDP\<rparr> None w_start
       = Returned (w', conn, err)
     \<and> socket_calls (since w_start w') = [(AF_INET6, SOCK_DGRAM, 17)]"
  using dial_socket_parameters [of example_dialer example_os Background None ip_six 53 Network_UDP
          None w_start]
  by (simp add: ip_six_def IPPROTO_UDP_def)




text \<open>
  Claim C8, as the code has it. An attempt first makes a context with a timeout of ten
  seconds from the background context; the context of the caller plays no part in the
  attempt, which returns the same for every context given. The only call of the attempt made
  under the timeout context is the application of the socket options, when options are given
  and the attempt gets that far; the connect is called without a context.
\<close>

theorem dial_timeout_context:
  assumes "Address destination = Some (IPAddr ip)"
  shows "\<exists>w' conn err.
     (\<forall>c. dial dialer os c source destination sockopt w = Returned (w', conn, err))
   \<and> take 2 (since w w') = [EvDial destination, EvWithTimeout Background (10 * Second)]
   \<and> under_context (WithTimeout Background (10 * Second)) (since w w') =
       (if connect_calls (since w w') = [] then []
        else case sockopt of
               Some so \<Rightarrow> [EvApplySockopt so destination (fresh_fd (open_fds w))
                             (WithTimeout Background (10 * Second))]
             | None \<Rightarrow> [])"
proof -
  have c: "(\<forall>c. dial dialer os c source destination sockopt w = r)
             = (dial dialer os ctx source destination sockopt w = r)" for r
    using dial_context [of dialer os _ source destination sockopt w ctx] by auto
  have so: "(case sockopt of
               Some so \<Rightarrow> [EvApplySockopt so destination fd (WithTimeout Background (10 * Second))]
             | None \<Rightarrow> []) = sockopt_events sockopt destination fd" for fd
    by (simp add: sockopt_events_def)
  from assms have "\<exists>w' conn err.
     dial dialer os ctx source destination sockopt w = Returned (w', conn, err)
   \<and> take 2 (since w w') = [EvDial destination, EvWithTimeout Background (10 * Second)]
   \<and> under_context (WithTimeout Background (10 * Second)) (since w w') =
       (if connect_calls (since w w') = [] then []
        else sockopt_events sockopt destination (fresh_fd (open_fds w)))"
  proof (cases rule: dial_cases [where dialer = dialer and os = os and ctx = ctx
          and source = source and sockopt = sockopt and w = w])
    case no_socket
    then show ?thesis by (simp add: attempt_head_def)
  next
    case (socket_error ty proto e)
    then show ?thesis by (simp add: attempt_head_def)
  next
    case (protect_false ty proto)
    then show ?thesis by (simp add: attempt_head_def)
  next
    case (connect_error ty proto e)
    then show ?thesis by (simp add: attempt_head_def protected_prefix_def)
  next
    case (packet_conn_error e)
    then show ?thesis by (simp add: attempt_head_def protected_prefix_def)
  next
    case (udp_addr_error e)
    then show ?thesis by (simp add: attempt_head_def protected_prefix_def)
  next
    case (packet_conn destAddr)
    then show ?thesis by (simp add: attempt_head_def protected_prefix_def)
  next
    case (file_conn_error ty proto e)
    then show ?thesis by (simp add: attempt_head_def protected_prefix_def)
  next
    case (file_conn ty proto)
    then show ?thesis by (simp add: attempt_head_def protected_prefix_def)
  qed
  then show ?thesis unfolding c so .
qed

text \<open>
  The theorem at an attempt with socket options.
\<close>

theorem dial_timeout_context_witness:
  "\<exists>w' conn err.
     (\<forall>c. dial example_dialer example_os c None dest_b (Some (SocketConfig 255)) w_start
            = Returned (w', conn, err))
   \<and> take 2 (since w_start w') = [EvDial dest_b, EvWithTimeout Background (10 * Second)]
   \<and> under_context (WithTimeout Background (10 * Second)) (since w_start w') =
       (if connect_calls (since w_start w') = [] then []
        else case Some (SocketConfig 255) of
               Some so \<Rightarrow> [EvApplySockopt so dest_b (fresh_fd (open_fds w_start))
                             (WithTimeout Background (10 * Second))]
             | None \<Rightarrow> [])"
proof -
  have h: "Address dest_b = Some (IPAddr ip_b)" by (simp add: dest_b_def)
  show ?thesis by (rule dial_timeout_context [OF h])
qed

text \<open>
  Claim C8 as stated (the timeout bounds the raw connect call) fails: in an attempt without
  socket options the connect is called and no call at all is made under the timeout
  context.
\<close>

theorem connect_not_under_timeout:
  "reachable_attempt
     = Returned (w_start\<lparr>trace :=
                   [EvDial dest_b, EvWithTimeout Background (10 * Second),
                    EvSocket AF_INET SOCK_STREAM 6 (Inr 3), EvProtect 3 True,
                    EvConnect 3 (SockaddrInet4 443 ip_b) None,
                    EvFileConn 3 (Inr 4), EvFileClose 3, EvCancel],
                 open_fds := [0, 1, 2, 4]\<rparr>,
                 Some (FileConn 4), None)
   \<and> connect_calls (since w_start (result_world reachable_attempt)) = [SockaddrInet4 443 ip_b]
   \<and> under_context (WithTimeout Background (10 * Second))
        (since w_start (result_world reachable_attempt)) = []"
  by (simp add: reachable_attempt_run since_def w_start_def)

subsection \<open>Failures of an attempt and the calls that follow\<close>






text \<open>
  Claim C10. When \<^verbatim>\<open>net.FilePacketConn\<close> fails in a call of \<^verbatim>\<open>Dial\<close> that
  returns, the destination is a datagram destination, the connect on this descriptor had
  succeeded, and \<^verbatim>\<open>Dial\<close> returns a nil connection with a nil error: the error of the
  conversion is not returned.
\<close>

theorem packet_conn_failure_returns_nil_nil:
  assumes "Dial dialer os ctx source destination sockopt w = Returned (w', conn, err)"
    and "EvFilePacketConn fd (Inl e) \<in> set (since w w')"
  shows "conn = None \<and> err = None \<and> Network destination = Network_UDP
         \<and> (\<exists>sa. EvConnect fd sa None \<in> set (since w w'))"
  using assms(1)
proof (cases rule: Dial_run)
  case (resolution_failed domain ips e0)
  then show ?thesis using assms(2) by simp
next
  case (attempted k w0 pre evs)
  let ?c = "candidates dialer ctx destination w"
  let ?d = "destination\<lparr>Address := Some (IPAddr (last (take k ?c)))\<rparr>"
  have s0: "since w0 w' = EvDial ?d # evs" using attempted(5) by (simp add: since_def)
  have "EvFilePacketConn fd (Inl e) \<notin> set pre"
    using attempted(9) by (auto simp: packet_conn_failed_def list_ex_iff)
  then have "EvFilePacketConn fd (Inl e) \<in> set (since w0 w')"
    using assms(2) unfolding attempted(6) s0 by auto
  moreover have a: "Address ?d = Some (IPAddr (last (take k ?c)))" by simp
  moreover have "set (since w0 w') \<subseteq> set (since w w')" unfolding s0 attempted(6) by auto
  ultimately show ?thesis
    using dial_packet_conn_error [OF a attempted(4), of fd e] by auto
qed

text \<open>
  The theorem at a datagram destination in a system where \<^verbatim>\<open>net.FilePacketConn\<close>
  fails.
\<close>

theorem packet_conn_failure_returns_nil_nil_witness:
  "packet_call
     = Returned (w_start\<lparr>trace :=
                   [EvDial dest_six, EvWithTimeout Background (10 * Second),
                    EvSocket AF_INET6 SOCK_DGRAM 17 (Inr 3), EvProtect 3 True,
                    EvConnect 3 (SockaddrInet6 53 ip_six) None,
                    EvFilePacketConn 3 (Inl (Errno 24)), EvFileClose 3, EvCancel]\<rparr>,
                 None, None)
   \<and> EvFilePacketConn 3 (Inl (Errno 24)) \<in> set (since w_start (result_world packet_call))
   \<and> Network dest_six = Network_UDP"
proof -
  note run = packet_call_run
  define w' where "w' = result_world packet_call"
  define conn :: "Conn option" where "conn = None"
  define err :: "error option" where "err = None"
  have r: "Dial example_dialer packet_conn_fails_os (CallerContext 1) None dest_six None w_start
             = Returned (w', conn, err)"
    using run unfolding w'_def conn_def err_def by (simp add: packet_call_def)
  have h: "EvFilePacketConn 3 (Inl (Errno 24)) \<in> set (since w_start w')"
    unfolding w'_def run by (simp add: since_def w_start_def)
  from packet_conn_failure_returns_nil_nil [OF r h]
  have n: "Network dest_six = Network_UDP" by simp
  show ?thesis by (intro conjI run h [unfolded w'_def] n)
qed

end
